theory Spec2Isabelle
  imports Main "HOL-Library.AList"
begin

section \<open>The page as utils/security.js sees it\<close>

text \<open>
  The script is one immediately invoked function. Its closure variables, the parts of
  the browser it writes to (the guard flag on \<open>window\<close>, the console, the elements it
  creates, the children of \<open>document.body\<close>, the listeners and timers it registers,
  the accessor it installs) and the clock of the timers are the fields of one record.

  An element reference is an index into \<open>elements\<close>, the store of the elements the
  script has made with \<open>document.createElement\<close>; \<open>cheatAlert\<close> and the entries of
  \<open>body\<close>, the children the script has appended to the body, are such references, so
  that the variable and the child of the body alias one object, as in the script. A
  \<open>style\<close> is the list of the properties assigned so far with the strings assigned;
  a property never assigned is absent.

  \<open>tabSwitchCount\<close> is a JavaScript number that only ever holds integers; it is an
  \<open>int\<close> here, the increment being exact on every integer below \<open>2^53\<close>.
  The document is taken to have a body.

  \<open>warnings\<close> is not a variable of the script: it records the argument of every call
  of \<open>showWarning\<close>, in call order, so that theorems can speak of the warnings fired.
\<close>

record element =
  localName :: string
  textContent :: string
  style :: "(string \<times> string) list"

record page =
  ECHO_VIVA_SECURITY_LOADED :: bool
  console :: "string list"
  warningShown :: bool
  tabSwitchCount :: int
  cheatAlert :: "nat option"
  devtoolsOpen :: bool
  elements :: "element list"
  body :: "nat list"
  visibilitychange_listeners :: nat
  blur_listeners :: nat
  intervals :: "nat list"
  timeouts :: "nat list"
  now :: nat
  getEchoVivaCheatCount_installed :: bool
  warnings :: "string list"

text \<open>
  \<open>intervals\<close> holds the period in milliseconds of every \<open>setInterval\<close> of the
  script, \<open>timeouts\<close> the time in milliseconds at which each pending \<open>setTimeout\<close>
  callback is due, \<open>now\<close> the current time. The two listener fields count the
  handlers this script has added for the event.
\<close>

definition createElement :: "string \<Rightarrow> element" where
  "createElement tag = \<lparr>localName = tag, textContent = [], style = []\<rparr>"

definition set_style :: "string \<Rightarrow> string \<Rightarrow> element \<Rightarrow> element" where
  "set_style property v e = e\<lparr>style := AList.update property v (style e)\<rparr>"

definition get_style :: "element \<Rightarrow> string \<Rightarrow> string option" where
  "get_style e property = map_of (style e) property"

text \<open>The three messages, as the UTF-8 bytes of the source file.\<close>

definition tab_switch_message :: string where
  "tab_switch_message =
     [CHR 0xE2, CHR 0x9A, CHR 0xA0, CHR 0xEF, CHR 0xB8, CHR 0x8F]
     @ '' Tab switch detected! Please stay on this tab during the viva.''"

definition focus_lost_message :: string where
  "focus_lost_message =
     [CHR 0xF0, CHR 0x9F, CHR 0x9A, CHR 0xAB]
     @ '' Focus lost! Please remain in the viva window.''"

definition devtools_message :: string where
  "devtools_message =
     [CHR 0xE2, CHR 0x9A, CHR 0xA0, CHR 0xEF, CHR 0xB8, CHR 0x8F]
     @ '' Developer tools detected! Please close them to continue viva.''"

subsection \<open>showWarning\<close>

text \<open>Lines 23 to 37: the new div with its twelve style properties and its text.\<close>

definition new_cheatAlert :: "string \<Rightarrow> element" where
  "new_cheatAlert message =
     (set_style ''transition'' ''opacity 0.4s ease''
     (set_style ''fontFamily'' ''Poppins, sans-serif''
     (set_style ''boxShadow'' ''0 0 12px rgba(0,0,0,0.5)''
     (set_style ''zIndex'' ''999999''
     (set_style ''borderRadius'' ''8px''
     (set_style ''fontSize'' ''14px''
     (set_style ''padding'' ''12px 16px''
     (set_style ''color'' ''white''
     (set_style ''background''
        ''linear-gradient(135deg, rgba(255, 0, 0, 0.8), rgba(255, 100, 100, 0.8))''
     (set_style ''right'' ''10px''
     (set_style ''top'' ''10px''
     (set_style ''position'' ''fixed''
     (createElement ''div'')))))))))))))\<lparr>textContent := message\<rparr>"

text \<open>
  The callback given to \<open>setTimeout\<close> (line 45). Every call of \<open>showWarning\<close> passes
  the same one, so a pending timeout is its due time alone.
\<close>

definition fade :: "page \<Rightarrow> page" where
  "fade w =
     (case cheatAlert w of
        None \<Rightarrow> w
      | Some r \<Rightarrow> w\<lparr>elements := (elements w)[r := set_style ''opacity'' ''0'' (elements w ! r)]\<rparr>)"

definition showWarning :: "string \<Rightarrow> page \<Rightarrow> page" where
  "showWarning message w =
     (let w1 =
        (case cheatAlert w of
           None \<Rightarrow>
             w\<lparr>cheatAlert := Some (length (elements w)),
               elements := elements w @ [new_cheatAlert message],
               body := body w @ [length (elements w)]\<rparr>
         | Some r \<Rightarrow>
             w\<lparr>elements :=
                 (elements w)[r := set_style ''opacity'' ''1''
                                    ((elements w ! r)\<lparr>textContent := message\<rparr>)]\<rparr>)
      in w1\<lparr>timeouts := timeouts w1 @ [now w1 + 4000],
            warnings := warnings w1 @ [message]\<rparr>)"

subsection \<open>The listeners and the interval callback\<close>

definition on_visibilitychange :: "bool \<Rightarrow> page \<Rightarrow> page" where
  "on_visibilitychange hidden w =
     (if hidden then
        showWarning tab_switch_message
          (w\<lparr>tabSwitchCount := tabSwitchCount w + 1, warningShown := True\<rparr>)
      else w)"

definition on_blur :: "page \<Rightarrow> page" where
  "on_blur w =
     showWarning focus_lost_message
       (w\<lparr>console := console w @ [''Window lost focus''],
          tabSwitchCount := tabSwitchCount w + 1,
          warningShown := True\<rparr>)"

definition threshold :: int where
  "threshold = 160"

definition on_interval :: "int \<Rightarrow> int \<Rightarrow> int \<Rightarrow> int \<Rightarrow> page \<Rightarrow> page" where
  "on_interval outerWidth innerWidth outerHeight innerHeight w =
     (let widthDiff = outerWidth - innerWidth > threshold;
          heightDiff = outerHeight - innerHeight > threshold
      in if widthDiff \<or> heightDiff then
           (if \<not> devtoolsOpen w then
              showWarning devtools_message (w\<lparr>devtoolsOpen := True\<rparr>)
            else w)
         else w\<lparr>devtoolsOpen := False\<rparr>)"

subsection \<open>Loading the script, and the accessor\<close>

definition load_script :: "page \<Rightarrow> page" where
  "load_script w =
     (let w0 = w\<lparr>console := console w @ [''SECURITY loaded!'']\<rparr>
      in if ECHO_VIVA_SECURITY_LOADED w0 then w0
         else w0\<lparr>ECHO_VIVA_SECURITY_LOADED := True,
                 warningShown := False,
                 tabSwitchCount := 0,
                 cheatAlert := None,
                 visibilitychange_listeners := visibilitychange_listeners w0 + 1,
                 blur_listeners := blur_listeners w0 + 1,
                 devtoolsOpen := False,
                 intervals := intervals w0 @ [1000],
                 getEchoVivaCheatCount_installed := True\<rparr>)"

text \<open>
  \<open>window.getEchoVivaCheatCount()\<close>; before the script has installed it the call
  has nothing to call, which is \<open>None\<close>.
\<close>

definition getEchoVivaCheatCount :: "page \<Rightarrow> int option" where
  "getEchoVivaCheatCount w =
     (if getEchoVivaCheatCount_installed w then Some (tabSwitchCount w) else None)"

subsection \<open>What the browser delivers\<close>

text \<open>
  \<open>Load\<close> runs the script. \<open>VisibilityChange hidden\<close> is a visibilitychange event
  with \<open>document.hidden\<close> as given, \<open>Blur\<close> a blur event on the window; each calls
  every handler added for it. \<open>Tick ow iw oh ih\<close> is one firing of the interval timers
  while the window has outer width \<open>ow\<close>, inner width \<open>iw\<close>, outer height \<open>oh\<close>
  and inner height \<open>ih\<close>. \<open>Elapse d\<close> lets \<open>d\<close> milliseconds pass: the timeouts
  due by then run and are no longer pending. The firings of the interval are events of
  their own, so a second of browser time is an \<open>Elapse\<close> and a \<open>Tick\<close>.
\<close>

datatype event =
    Load
  | VisibilityChange bool
  | Blur
  | Tick int int int int
  | Elapse nat

definition elapse :: "nat \<Rightarrow> page \<Rightarrow> page" where
  "elapse d w =
     (let t = now w + d
      in (fade ^^ length (filter (\<lambda>due. due \<le> t) (timeouts w)))
           (w\<lparr>now := t, timeouts := filter (\<lambda>due. t < due) (timeouts w)\<rparr>))"

fun step :: "event \<Rightarrow> page \<Rightarrow> page" where
  "step Load w = load_script w"
| "step (VisibilityChange hidden) w =
     (on_visibilitychange hidden ^^ visibilitychange_listeners w) w"
| "step Blur w = (on_blur ^^ blur_listeners w) w"
| "step (Tick ow iw oh ih) w = (on_interval ow iw oh ih ^^ length (intervals w)) w"
| "step (Elapse d) w = elapse d w"

definition run :: "event list \<Rightarrow> page \<Rightarrow> page" where
  "run evs w = fold step evs w"

text \<open>A page on which the script has never run, at time 0.\<close>

definition fresh_page :: page where
  "fresh_page =
     \<lparr>ECHO_VIVA_SECURITY_LOADED = False, console = [], warningShown = False,
      tabSwitchCount = 0, cheatAlert = None, devtoolsOpen = False, elements = [],
      body = [], visibilitychange_listeners = 0, blur_listeners = 0, intervals = [],
      timeouts = [], now = 0, getEchoVivaCheatCount_installed = False, warnings = []\<rparr>"

text \<open>The notice as a reader of the page sees it.\<close>

definition notice :: "page \<Rightarrow> element option" where
  "notice w =
     (case cheatAlert w of
        None \<Rightarrow> None
      | Some r \<Rightarrow> if r < length (elements w) then Some (elements w ! r) else None)"

text \<open>
  The events that are firings of the interval, and those of them at which the
  comparison of line 70 or of line 71 holds.
\<close>

fun is_Tick :: "event \<Rightarrow> bool" where
  "is_Tick (Tick ow iw oh ih) = True"
| "is_Tick e = False"

fun above :: "event \<Rightarrow> bool" where
  "above (Tick ow iw oh ih) = (ow - iw > threshold \<or> oh - ih > threshold)"
| "above e = False"

subsection \<open>The script without warningShown\<close>

text \<open>
  The same script with line 16 and the two assignments of lines 53 and 62 deleted.
  The field \<open>warningShown\<close> of the page is then never written.
\<close>

definition on_visibilitychange_noflag :: "bool \<Rightarrow> page \<Rightarrow> page" where
  "on_visibilitychange_noflag hidden w =
     (if hidden then
        showWarning tab_switch_message (w\<lparr>tabSwitchCount := tabSwitchCount w + 1\<rparr>)
      else w)"

definition on_blur_noflag :: "page \<Rightarrow> page" where
  "on_blur_noflag w =
     showWarning focus_lost_message
       (w\<lparr>console := console w @ [''Window lost focus''],
          tabSwitchCount := tabSwitchCount w + 1\<rparr>)"

definition load_script_noflag :: "page \<Rightarrow> page" where
  "load_script_noflag w =
     (let w0 = w\<lparr>console := console w @ [''SECURITY loaded!'']\<rparr>
      in if ECHO_VIVA_SECURITY_LOADED w0 then w0
         else w0\<lparr>ECHO_VIVA_SECURITY_LOADED := True,
                 tabSwitchCount := 0,
                 cheatAlert := None,
                 visibilitychange_listeners := visibilitychange_listeners w0 + 1,
                 blur_listeners := blur_listeners w0 + 1,
                 devtoolsOpen := False,
                 intervals := intervals w0 @ [1000],
                 getEchoVivaCheatCount_installed := True\<rparr>)"

fun step_noflag :: "event \<Rightarrow> page \<Rightarrow> page" where
  "step_noflag Load w = load_script_noflag w"
| "step_noflag (VisibilityChange hidden) w =
     (on_visibilitychange_noflag hidden ^^ visibilitychange_listeners w) w"
| "step_noflag Blur w = (on_blur_noflag ^^ blur_listeners w) w"
| "step_noflag (Tick ow iw oh ih) w = (on_interval ow iw oh ih ^^ length (intervals w)) w"
| "step_noflag (Elapse d) w = elapse d w"

definition run_noflag :: "event list \<Rightarrow> page \<Rightarrow> page" where
  "run_noflag evs w = fold step_noflag evs w"

subsection \<open>The invariant of the loaded monitor\<close>

text \<open>
  What holds of the page from the first load on: the guard flag is set, each handler,
  the interval and the accessor are registered once, the counter is not negative, and
  either no warning has been shown and no element made, or the one element made is the
  only child added to the body and shows the last warning.
\<close>

definition monitor_ok :: "page \<Rightarrow> bool" where
  "monitor_ok w =
     (ECHO_VIVA_SECURITY_LOADED w \<and> getEchoVivaCheatCount_installed w \<and>
      visibilitychange_listeners w = 1 \<and> blur_listeners w = 1 \<and>
      intervals w = [1000] \<and> 0 \<le> tabSwitchCount w \<and>
      (case cheatAlert w of
         None \<Rightarrow> elements w = [] \<and> body w = [] \<and> warnings w = [] \<and> timeouts w = []
       | Some r \<Rightarrow>
           r = 0 \<and> length (elements w) = 1 \<and> body w = [0] \<and> warnings w \<noteq> [] \<and>
           textContent (elements w ! 0) = last (warnings w)))"

text \<open>The text and the opacity of the notice, when there is one.\<close>

definition notice_text :: "page \<Rightarrow> string option" where
  "notice_text w = (case notice w of None \<Rightarrow> None | Some e \<Rightarrow> Some (textContent e))"

definition notice_opacity :: "page \<Rightarrow> string option" where
  "notice_opacity w = (case notice w of None \<Rightarrow> None | Some e \<Rightarrow> get_style e ''opacity'')"

section \<open>What each operation changes\<close>

subsection \<open>Elements\<close>

lemma set_style_fields [simp]:
  "textContent (set_style p v e) = textContent e"
  "localName (set_style p v e) = localName e"
  "get_style (set_style p v e) q = (if q = p then Some v else get_style e q)"
  by (simp_all add: set_style_def get_style_def update_conv')

lemma get_style_textContent [simp]:
  "get_style (e\<lparr>textContent := t\<rparr>) q = get_style e q"
  by (simp add: get_style_def)

lemma set_style_twice [simp]:
  "set_style p v (set_style p v' e) = set_style p v e"
  by (simp add: set_style_def)

lemma createElement_fields [simp]:
  "textContent (createElement t) = []"
  "localName (createElement t) = t"
  "get_style (createElement t) q = None"
  by (simp_all add: createElement_def get_style_def)

lemma new_cheatAlert_fields [simp]:
  "textContent (new_cheatAlert m) = m"
  "localName (new_cheatAlert m) = ''div''"
  "get_style (new_cheatAlert m) ''opacity'' = None"
  by (simp_all add: new_cheatAlert_def)

subsection \<open>showWarning\<close>

lemma showWarning_fields [simp]:
  "ECHO_VIVA_SECURITY_LOADED (showWarning m w) = ECHO_VIVA_SECURITY_LOADED w"
  "console (showWarning m w) = console w"
  "warningShown (showWarning m w) = warningShown w"
  "tabSwitchCount (showWarning m w) = tabSwitchCount w"
  "devtoolsOpen (showWarning m w) = devtoolsOpen w"
  "visibilitychange_listeners (showWarning m w) = visibilitychange_listeners w"
  "blur_listeners (showWarning m w) = blur_listeners w"
  "intervals (showWarning m w) = intervals w"
  "now (showWarning m w) = now w"
  "getEchoVivaCheatCount_installed (showWarning m w) = getEchoVivaCheatCount_installed w"
  "warnings (showWarning m w) = warnings w @ [m]"
  "timeouts (showWarning m w) = timeouts w @ [now w + 4000]"
  by (simp_all add: showWarning_def Let_def split: option.split)

lemma showWarning_create:
  assumes "cheatAlert w = None"
  shows "cheatAlert (showWarning m w) = Some (length (elements w))"
    and "elements (showWarning m w) = elements w @ [new_cheatAlert m]"
    and "body (showWarning m w) = body w @ [length (elements w)]"
  using assms by (simp_all add: showWarning_def Let_def)

lemma showWarning_reuse:
  assumes "cheatAlert w = Some r"
  shows "cheatAlert (showWarning m w) = Some r"
    and "elements (showWarning m w) =
           (elements w)[r := set_style ''opacity'' ''1'' ((elements w ! r)\<lparr>textContent := m\<rparr>)]"
    and "body (showWarning m w) = body w"
  using assms by (simp_all add: showWarning_def Let_def)

lemma showWarning_update [simp]:
  "showWarning m (w\<lparr>console := l\<rparr>) = (showWarning m w)\<lparr>console := l\<rparr>"
  "showWarning m (w\<lparr>tabSwitchCount := c\<rparr>) = (showWarning m w)\<lparr>tabSwitchCount := c\<rparr>"
  "showWarning m (w\<lparr>warningShown := f\<rparr>) = (showWarning m w)\<lparr>warningShown := f\<rparr>"
  "showWarning m (w\<lparr>devtoolsOpen := f\<rparr>) = (showWarning m w)\<lparr>devtoolsOpen := f\<rparr>"
  by (simp_all add: showWarning_def Let_def split: option.split)

subsection \<open>The handlers, as showWarning and assignments\<close>

lemma on_visibilitychange_eq:
  "on_visibilitychange hidden w =
     (if hidden then
        (showWarning tab_switch_message w)
          \<lparr>tabSwitchCount := tabSwitchCount w + 1, warningShown := True\<rparr>
      else w)"
  by (simp add: on_visibilitychange_def)

lemma on_blur_eq:
  "on_blur w =
     (showWarning focus_lost_message w)
       \<lparr>console := console w @ [''Window lost focus''],
        tabSwitchCount := tabSwitchCount w + 1, warningShown := True\<rparr>"
  by (simp add: on_blur_def)

lemma on_interval_eq:
  "on_interval ow iw oh ih w =
     (if 160 < ow - iw \<or> 160 < oh - ih then
        (if devtoolsOpen w then w else (showWarning devtools_message w)\<lparr>devtoolsOpen := True\<rparr>)
      else w\<lparr>devtoolsOpen := False\<rparr>)"
  by (simp add: on_interval_def threshold_def Let_def)

lemma on_visibilitychange_fields [simp]:
  "ECHO_VIVA_SECURITY_LOADED (on_visibilitychange h w) = ECHO_VIVA_SECURITY_LOADED w"
  "console (on_visibilitychange h w) = console w"
  "warningShown (on_visibilitychange h w) = (h \<or> warningShown w)"
  "tabSwitchCount (on_visibilitychange h w) = tabSwitchCount w + (if h then 1 else 0)"
  "devtoolsOpen (on_visibilitychange h w) = devtoolsOpen w"
  "visibilitychange_listeners (on_visibilitychange h w) = visibilitychange_listeners w"
  "blur_listeners (on_visibilitychange h w) = blur_listeners w"
  "intervals (on_visibilitychange h w) = intervals w"
  "now (on_visibilitychange h w) = now w"
  "getEchoVivaCheatCount_installed (on_visibilitychange h w) = getEchoVivaCheatCount_installed w"
  "warnings (on_visibilitychange h w) = warnings w @ (if h then [tab_switch_message] else [])"
  "timeouts (on_visibilitychange h w) = timeouts w @ (if h then [now w + 4000] else [])"
  by (simp_all add: on_visibilitychange_eq)

lemma on_blur_fields [simp]:
  "ECHO_VIVA_SECURITY_LOADED (on_blur w) = ECHO_VIVA_SECURITY_LOADED w"
  "console (on_blur w) = console w @ [''Window lost focus'']"
  "warningShown (on_blur w) = True"
  "tabSwitchCount (on_blur w) = tabSwitchCount w + 1"
  "devtoolsOpen (on_blur w) = devtoolsOpen w"
  "visibilitychange_listeners (on_blur w) = visibilitychange_listeners w"
  "blur_listeners (on_blur w) = blur_listeners w"
  "intervals (on_blur w) = intervals w"
  "now (on_blur w) = now w"
  "getEchoVivaCheatCount_installed (on_blur w) = getEchoVivaCheatCount_installed w"
  "warnings (on_blur w) = warnings w @ [focus_lost_message]"
  "timeouts (on_blur w) = timeouts w @ [now w + 4000]"
  by (simp_all add: on_blur_eq)

lemma on_interval_fields [simp]:
  "ECHO_VIVA_SECURITY_LOADED (on_interval ow iw oh ih w) = ECHO_VIVA_SECURITY_LOADED w"
  "console (on_interval ow iw oh ih w) = console w"
  "warningShown (on_interval ow iw oh ih w) = warningShown w"
  "tabSwitchCount (on_interval ow iw oh ih w) = tabSwitchCount w"
  "devtoolsOpen (on_interval ow iw oh ih w) = (160 < ow - iw \<or> 160 < oh - ih)"
  "visibilitychange_listeners (on_interval ow iw oh ih w) = visibilitychange_listeners w"
  "blur_listeners (on_interval ow iw oh ih w) = blur_listeners w"
  "intervals (on_interval ow iw oh ih w) = intervals w"
  "now (on_interval ow iw oh ih w) = now w"
  "getEchoVivaCheatCount_installed (on_interval ow iw oh ih w) = getEchoVivaCheatCount_installed w"
  "warnings (on_interval ow iw oh ih w) =
     warnings w @ (if (160 < ow - iw \<or> 160 < oh - ih) \<and> \<not> devtoolsOpen w
                   then [devtools_message] else [])"
  by (auto simp add: on_interval_eq)

subsection \<open>The fade callback and the passing of time\<close>

lemma fade_fields [simp]:
  "ECHO_VIVA_SECURITY_LOADED (fade w) = ECHO_VIVA_SECURITY_LOADED w"
  "console (fade w) = console w"
  "warningShown (fade w) = warningShown w"
  "tabSwitchCount (fade w) = tabSwitchCount w"
  "cheatAlert (fade w) = cheatAlert w"
  "devtoolsOpen (fade w) = devtoolsOpen w"
  "body (fade w) = body w"
  "visibilitychange_listeners (fade w) = visibilitychange_listeners w"
  "blur_listeners (fade w) = blur_listeners w"
  "intervals (fade w) = intervals w"
  "timeouts (fade w) = timeouts w"
  "now (fade w) = now w"
  "getEchoVivaCheatCount_installed (fade w) = getEchoVivaCheatCount_installed w"
  "warnings (fade w) = warnings w"
  "length (elements (fade w)) = length (elements w)"
  by (simp_all add: fade_def split: option.split)

lemma fade_idem [simp]: "fade (fade w) = fade w"
proof (cases "cheatAlert w")
  case None
  then show ?thesis by (simp add: fade_def)
next
  case (Some r)
  then show ?thesis
    by (cases "r < length (elements w)") (simp_all add: fade_def list_update_beyond)
qed

lemma fade_funpow: "(fade ^^ n) w = (if n = 0 then w else fade w)"
  by (induction n) simp_all

lemma elapse_unfold:
  "elapse d w =
     (if \<exists>due \<in> set (timeouts w). due \<le> now w + d
      then fade (w\<lparr>now := now w + d, timeouts := filter (\<lambda>due. now w + d < due) (timeouts w)\<rparr>)
      else w\<lparr>now := now w + d, timeouts := filter (\<lambda>due. now w + d < due) (timeouts w)\<rparr>)"
  by (auto simp: elapse_def Let_def fade_funpow filter_empty_conv)

lemma elapse_fields [simp]:
  "ECHO_VIVA_SECURITY_LOADED (elapse d w) = ECHO_VIVA_SECURITY_LOADED w"
  "console (elapse d w) = console w"
  "warningShown (elapse d w) = warningShown w"
  "tabSwitchCount (elapse d w) = tabSwitchCount w"
  "cheatAlert (elapse d w) = cheatAlert w"
  "devtoolsOpen (elapse d w) = devtoolsOpen w"
  "body (elapse d w) = body w"
  "visibilitychange_listeners (elapse d w) = visibilitychange_listeners w"
  "blur_listeners (elapse d w) = blur_listeners w"
  "intervals (elapse d w) = intervals w"
  "timeouts (elapse d w) = filter (\<lambda>due. now w + d < due) (timeouts w)"
  "now (elapse d w) = now w + d"
  "getEchoVivaCheatCount_installed (elapse d w) = getEchoVivaCheatCount_installed w"
  "warnings (elapse d w) = warnings w"
  "length (elements (elapse d w)) = length (elements w)"
  by (simp_all add: elapse_unfold)

subsection \<open>Loading, steps and runs\<close>

lemma load_script_loaded:
  "ECHO_VIVA_SECURITY_LOADED w \<Longrightarrow>
     load_script w = w\<lparr>console := console w @ [''SECURITY loaded!'']\<rparr>"
  by (simp add: load_script_def)

lemma load_script_sets_flag: "ECHO_VIVA_SECURITY_LOADED (load_script w)"
  by (simp add: load_script_def Let_def)

lemma loaded_fields [simp]:
  "ECHO_VIVA_SECURITY_LOADED (load_script fresh_page)"
  "console (load_script fresh_page) = [''SECURITY loaded!'']"
  "warningShown (load_script fresh_page) = False"
  "tabSwitchCount (load_script fresh_page) = 0"
  "cheatAlert (load_script fresh_page) = None"
  "devtoolsOpen (load_script fresh_page) = False"
  "elements (load_script fresh_page) = []"
  "body (load_script fresh_page) = []"
  "visibilitychange_listeners (load_script fresh_page) = 1"
  "blur_listeners (load_script fresh_page) = 1"
  "intervals (load_script fresh_page) = [1000]"
  "timeouts (load_script fresh_page) = []"
  "now (load_script fresh_page) = 0"
  "getEchoVivaCheatCount_installed (load_script fresh_page)"
  "warnings (load_script fresh_page) = []"
  by (simp_all add: load_script_def fresh_page_def)

lemma funpow_preserves:
  assumes "\<And>x. P x \<Longrightarrow> P (f x)" and "P x"
  shows "P ((f ^^ n) x)"
  using assms by (induction n) simp_all

lemma run_Nil [simp]: "run [] w = w"
  by (simp add: run_def)

lemma run_Cons [simp]: "run (e # evs) w = run evs (step e w)"
  by (simp add: run_def)

lemma run_append [simp]: "run (evs @ evs') w = run evs' (run evs w)"
  by (simp add: run_def)

lemma step_keeps_flag:
  assumes "ECHO_VIVA_SECURITY_LOADED w"
  shows "ECHO_VIVA_SECURITY_LOADED (step e w)"
proof (cases e)
  case Load
  with assms show ?thesis by (simp add: load_script_loaded)
next
  case (VisibilityChange h)
  from assms have "ECHO_VIVA_SECURITY_LOADED
      ((on_visibilitychange h ^^ visibilitychange_listeners w) w)"
    by (rule funpow_preserves [rotated]) simp
  with VisibilityChange show ?thesis by simp
next
  case Blur
  from assms have "ECHO_VIVA_SECURITY_LOADED ((on_blur ^^ blur_listeners w) w)"
    by (rule funpow_preserves [rotated]) simp
  with Blur show ?thesis by simp
next
  case (Tick ow iw oh ih)
  from assms
  have "ECHO_VIVA_SECURITY_LOADED ((on_interval ow iw oh ih ^^ length (intervals w)) w)"
    by (rule funpow_preserves [rotated]) simp
  with Tick show ?thesis by simp
next
  case (Elapse d)
  with assms show ?thesis by simp
qed

lemma run_keeps_flag:
  "ECHO_VIVA_SECURITY_LOADED w \<Longrightarrow> ECHO_VIVA_SECURITY_LOADED (run evs w)"
  by (induction evs arbitrary: w) (simp_all add: step_keeps_flag)

subsection \<open>The invariant holds from the load on\<close>

lemma monitor_ok_update [simp]:
  "monitor_ok (w\<lparr>devtoolsOpen := b\<rparr>) = monitor_ok w"
  "monitor_ok (w\<lparr>console := l\<rparr>) = monitor_ok w"
  "monitor_ok (w\<lparr>warningShown := b\<rparr>) = monitor_ok w"
  "monitor_ok (w\<lparr>now := t\<rparr>) = monitor_ok w"
  by (simp_all add: monitor_ok_def cong: option.case_cong)

lemma monitor_ok_count:
  "monitor_ok w \<Longrightarrow> tabSwitchCount w \<le> c \<Longrightarrow> monitor_ok (w\<lparr>tabSwitchCount := c\<rparr>)"
  by (simp add: monitor_ok_def cong: option.case_cong)

lemma monitor_ok_registered:
  "monitor_ok w \<Longrightarrow> visibilitychange_listeners w = 1"
  "monitor_ok w \<Longrightarrow> blur_listeners w = 1"
  "monitor_ok w \<Longrightarrow> intervals w = [1000]"
  "monitor_ok w \<Longrightarrow> ECHO_VIVA_SECURITY_LOADED w"
  "monitor_ok w \<Longrightarrow> getEchoVivaCheatCount_installed w"
  "monitor_ok w \<Longrightarrow> 0 \<le> tabSwitchCount w"
  by (simp_all add: monitor_ok_def)

lemma showWarning_monitor_ok: "monitor_ok w \<Longrightarrow> monitor_ok (showWarning m w)"
  by (auto simp: monitor_ok_def showWarning_def Let_def split: option.splits)

lemma on_visibilitychange_monitor_ok:
  "monitor_ok w \<Longrightarrow> monitor_ok (on_visibilitychange h w)"
  by (simp add: on_visibilitychange_eq showWarning_monitor_ok monitor_ok_count)

lemma on_blur_monitor_ok: "monitor_ok w \<Longrightarrow> monitor_ok (on_blur w)"
  by (simp add: on_blur_eq showWarning_monitor_ok monitor_ok_count)

lemma on_interval_monitor_ok: "monitor_ok w \<Longrightarrow> monitor_ok (on_interval ow iw oh ih w)"
  by (simp add: on_interval_eq showWarning_monitor_ok)

lemma fade_monitor_ok: "monitor_ok w \<Longrightarrow> monitor_ok (fade w)"
  by (auto simp: monitor_ok_def fade_def split: option.splits)

lemma elapse_monitor_ok: "monitor_ok w \<Longrightarrow> monitor_ok (elapse d w)"
  by (auto simp: elapse_unfold monitor_ok_def fade_def split: option.splits)

lemma step_loaded:
  "monitor_ok w \<Longrightarrow> step Load w = w\<lparr>console := console w @ [''SECURITY loaded!'']\<rparr>"
  "monitor_ok w \<Longrightarrow> step (VisibilityChange h) w = on_visibilitychange h w"
  "monitor_ok w \<Longrightarrow> step Blur w = on_blur w"
  "monitor_ok w \<Longrightarrow> step (Tick ow iw oh ih) w = on_interval ow iw oh ih w"
  by (simp_all add: monitor_ok_registered load_script_loaded)

lemma step_monitor_ok: "monitor_ok w \<Longrightarrow> monitor_ok (step e w)"
  by (cases e)
    (simp_all add: monitor_ok_registered load_script_loaded on_visibilitychange_monitor_ok
       on_blur_monitor_ok on_interval_monitor_ok elapse_monitor_ok)

lemma run_monitor_ok: "monitor_ok w \<Longrightarrow> monitor_ok (run evs w)"
  by (induction evs arbitrary: w) (simp_all add: step_monitor_ok)

lemma loaded_monitor_ok: "monitor_ok (load_script fresh_page)"
  by (simp add: monitor_ok_def)

lemma reachable_monitor_ok: "monitor_ok (run evs (load_script fresh_page))"
  by (simp add: run_monitor_ok loaded_monitor_ok)

subsection \<open>The counter along a run\<close>

lemma step_tabSwitchCount:
  "monitor_ok w \<Longrightarrow>
     tabSwitchCount (step e w) =
       tabSwitchCount w + (if e = VisibilityChange True \<or> e = Blur then 1 else 0)"
  by (cases e) (simp_all add: monitor_ok_registered load_script_loaded)

lemma run_tabSwitchCount:
  "monitor_ok w \<Longrightarrow>
     tabSwitchCount (run evs w) =
       tabSwitchCount w + int (length (filter (\<lambda>e. e = VisibilityChange True \<or> e = Blur) evs))"
proof (induction evs arbitrary: w)
  case Nil
  then show ?case by simp
next
  case (Cons e evs)
  from Cons.prems have "monitor_ok (step e w)" by (rule step_monitor_ok)
  from Cons.IH [OF this] step_tabSwitchCount [OF Cons.prems, of e]
  show ?case by simp
qed

section \<open>The claims\<close>

subsection \<open>C1: the accessor counts the hidden and blur events\<close>

text \<open>
  C1. Right after the load the accessor returns 0. After any sequence of events
  delivered since the load (visibility changes to hidden or to visible, blurs, ticks of
  the devtools interval, time passing, further loads) the accessor returns the number
  of visibility changes to hidden plus the number of blurs in the sequence. The
  interval callback, whatever the window dimensions and on any page, leaves the counter
  as it is.
\<close>

theorem cheat_count_is_number_of_hidden_and_blur_events:
  "getEchoVivaCheatCount (load_script fresh_page) = Some 0 \<and>
   getEchoVivaCheatCount (run evs (load_script fresh_page)) =
     Some (int (length (filter (\<lambda>e. e = VisibilityChange True \<or> e = Blur) evs))) \<and>
   tabSwitchCount (on_interval ow iw oh ih w) = tabSwitchCount w"
proof -
  let ?w0 = "load_script fresh_page"
  have "getEchoVivaCheatCount_installed (run evs ?w0)"
    using reachable_monitor_ok [of evs] by (simp add: monitor_ok_def)
  then show ?thesis
    using run_tabSwitchCount [OF loaded_monitor_ok, of evs]
    by (simp add: getEchoVivaCheatCount_def)
qed

theorem cheat_count_witness:
  "getEchoVivaCheatCount
     (run [VisibilityChange True, Tick 500 100 300 200, VisibilityChange False, Blur,
           Elapse 5000, VisibilityChange True] (load_script fresh_page)) = Some 3"
  using cheat_count_is_number_of_hidden_and_blur_events
    [of "[VisibilityChange True, Tick 500 100 300 200, VisibilityChange False, Blur,
          Elapse 5000, VisibilityChange True]"]
  by simp

subsection \<open>C2: a second load\<close>

text \<open>
  C2. After the script has loaded once, on any page, and after any events since, running
  the script again adds its line to the console and changes nothing else: the handlers,
  the interval, the pending timeouts, the counter, the notice reference, the elements
  and both flags are what they were.
\<close>

theorem second_load_registers_nothing_and_keeps_the_state:
  "load_script (run evs (load_script w)) =
     (run evs (load_script w))
       \<lparr>console := console (run evs (load_script w)) @ [''SECURITY loaded!'']\<rparr> \<and>
   visibilitychange_listeners (load_script (run evs (load_script w))) =
     visibilitychange_listeners (run evs (load_script w)) \<and>
   blur_listeners (load_script (run evs (load_script w))) =
     blur_listeners (run evs (load_script w)) \<and>
   intervals (load_script (run evs (load_script w))) = intervals (run evs (load_script w)) \<and>
   timeouts (load_script (run evs (load_script w))) = timeouts (run evs (load_script w)) \<and>
   tabSwitchCount (load_script (run evs (load_script w))) =
     tabSwitchCount (run evs (load_script w)) \<and>
   cheatAlert (load_script (run evs (load_script w))) = cheatAlert (run evs (load_script w)) \<and>
   elements (load_script (run evs (load_script w))) = elements (run evs (load_script w)) \<and>
   devtoolsOpen (load_script (run evs (load_script w))) =
     devtoolsOpen (run evs (load_script w)) \<and>
   warningShown (load_script (run evs (load_script w))) =
     warningShown (run evs (load_script w))"
proof -
  have "ECHO_VIVA_SECURITY_LOADED (run evs (load_script w))"
    by (simp add: run_keeps_flag load_script_sets_flag)
  then show ?thesis by (simp add: load_script_loaded)
qed

theorem second_load_witness:
  "visibilitychange_listeners (load_script (run [Blur] (load_script fresh_page))) = 1 \<and>
   blur_listeners (load_script (run [Blur] (load_script fresh_page))) = 1 \<and>
   intervals (load_script (run [Blur] (load_script fresh_page))) = [1000] \<and>
   timeouts (load_script (run [Blur] (load_script fresh_page))) = [4000] \<and>
   tabSwitchCount (load_script (run [Blur] (load_script fresh_page))) = 1 \<and>
   console (load_script (run [Blur] (load_script fresh_page))) =
     [''SECURITY loaded!'', ''Window lost focus'', ''SECURITY loaded!'']"
  using second_load_registers_nothing_and_keeps_the_state [of "[Blur]" fresh_page]
  by simp

subsection \<open>C6: the counter only grows, by one at a time\<close>

text \<open>
  C6. The counter is an integer. The visibility handler adds one to it when the document
  is hidden and leaves it otherwise, the blur handler adds one, and the interval
  callback, showWarning and the fade callback leave it as it is; the accessor only
  reads the page. From the load on the counter is never negative, every event leaves
  it or adds exactly one, and it never gets smaller as more events arrive.
\<close>

theorem counter_is_nonnegative_and_never_decreases:
  "tabSwitchCount (on_visibilitychange hidden w) = tabSwitchCount w + (if hidden then 1 else 0) \<and>
   tabSwitchCount (on_blur w) = tabSwitchCount w + 1 \<and>
   tabSwitchCount (on_interval ow iw oh ih w) = tabSwitchCount w \<and>
   tabSwitchCount (showWarning m w) = tabSwitchCount w \<and>
   tabSwitchCount (fade w) = tabSwitchCount w \<and>
   0 \<le> tabSwitchCount (run evs (load_script fresh_page)) \<and>
   (tabSwitchCount (step e (run evs (load_script fresh_page))) =
      tabSwitchCount (run evs (load_script fresh_page)) \<or>
    tabSwitchCount (step e (run evs (load_script fresh_page))) =
      tabSwitchCount (run evs (load_script fresh_page)) + 1) \<and>
   tabSwitchCount (run evs (load_script fresh_page)) \<le>
     tabSwitchCount (run (evs @ later) (load_script fresh_page))"
proof -
  let ?W = "run evs (load_script fresh_page)"
  have ok: "monitor_ok ?W" by (rule reachable_monitor_ok)
  have "tabSwitchCount ?W \<le> tabSwitchCount (run later ?W)"
    by (simp add: run_tabSwitchCount [OF ok])
  moreover have "tabSwitchCount (step e ?W) = tabSwitchCount ?W \<or>
      tabSwitchCount (step e ?W) = tabSwitchCount ?W + 1"
    by (simp add: step_tabSwitchCount [OF ok])
  ultimately show ?thesis
    using monitor_ok_registered(6) [OF ok] by simp
qed

theorem counter_witness:
  "tabSwitchCount (run [Blur, Tick 500 0 0 0] (load_script fresh_page)) = 1 \<and>
   tabSwitchCount (step Blur (run [Blur, Tick 500 0 0 0] (load_script fresh_page))) = 2 \<and>
   tabSwitchCount (run ([Blur, Tick 500 0 0 0] @ [Elapse 4000, Load])
     (load_script fresh_page)) = 1"
  using counter_is_nonnegative_and_never_decreases
    [of True "load_script fresh_page" 0 0 0 0 "''''" "[Blur, Tick 500 0 0 0]" Blur
        "[Elapse 4000, Load]"]
  by (simp add: load_script_loaded)

subsection \<open>C9: a difference of exactly 160 is no breach\<close>

text \<open>
  C9. When the outer width exceeds the inner width by exactly 160 and the outer height
  exceeds the inner height by exactly 160, the interval callback only sets
  \<open>devtoolsOpen\<close> to false: the flag is not set and no warning is fired. One pixel
  more on an axis does set the flag.
\<close>

theorem delta_equal_to_threshold_is_no_breach:
  "(ow - iw = 160 \<and> oh - ih = 160 \<longrightarrow>
      on_interval ow iw oh ih w = w\<lparr>devtoolsOpen := False\<rparr> \<and>
      \<not> devtoolsOpen (on_interval ow iw oh ih w) \<and>
      warnings (on_interval ow iw oh ih w) = warnings w) \<and>
   devtoolsOpen (on_interval (iw + 161) iw oh ih w)"
  by (simp add: on_interval_def threshold_def Let_def)

theorem delta_equal_to_threshold_witness:
  "(1440 :: int) - 1280 = 160 \<and> (900 :: int) - 740 = 160 \<and>
   on_interval 1440 1280 900 740 (load_script fresh_page) =
     (load_script fresh_page)\<lparr>devtoolsOpen := False\<rparr> \<and>
   \<not> devtoolsOpen (on_interval 1440 1280 900 740 (load_script fresh_page)) \<and>
   warnings (on_interval 1440 1280 900 740 (load_script fresh_page)) = [] \<and>
   devtoolsOpen (on_interval (1280 + 161) 1280 900 740 (load_script fresh_page))"
  using delta_equal_to_threshold_is_no_breach [of 1440 1280 900 740 "load_script fresh_page"]
  by simp

subsection \<open>The notice along a run\<close>

lemma showWarning_dom:
  "cheatAlert (showWarning m w) =
     Some (case cheatAlert w of None \<Rightarrow> length (elements w) | Some r \<Rightarrow> r)"
  "elements (showWarning m w) =
     (case cheatAlert w of
        None \<Rightarrow> elements w @ [new_cheatAlert m]
      | Some r \<Rightarrow>
          (elements w)[r := set_style ''opacity'' ''1'' ((elements w ! r)\<lparr>textContent := m\<rparr>)])"
  "body (showWarning m w) =
     (case cheatAlert w of None \<Rightarrow> body w @ [length (elements w)] | Some r \<Rightarrow> body w)"
  by (simp_all add: showWarning_def Let_def split: option.split)

lemma handlers_dom:
  "cheatAlert (on_blur w) = cheatAlert (showWarning focus_lost_message w)"
  "elements (on_blur w) = elements (showWarning focus_lost_message w)"
  "body (on_blur w) = body (showWarning focus_lost_message w)"
  "cheatAlert (on_visibilitychange True w) = cheatAlert (showWarning tab_switch_message w)"
  "elements (on_visibilitychange True w) = elements (showWarning tab_switch_message w)"
  "body (on_visibilitychange True w) = body (showWarning tab_switch_message w)"
  "on_visibilitychange False w = w"
  by (simp_all add: on_blur_eq on_visibilitychange_eq)

lemma monitor_ok_notice:
  assumes "monitor_ok w"
  shows "notice_text w = (if warnings w = [] then None else Some (last (warnings w)))"
    and "length (elements w) \<le> 1"
    and "body w = (case cheatAlert w of None \<Rightarrow> [] | Some r \<Rightarrow> [r])"
    and "cheatAlert w = Some r \<Longrightarrow> r < length (elements w)"
    and "(cheatAlert w = None) = (warnings w = [])"
  using assms
  by (auto simp: monitor_ok_def notice_text_def notice_def split: option.splits)

lemma fold_showWarning_monitor_ok:
  "monitor_ok w \<Longrightarrow> monitor_ok (fold showWarning ms w)"
  by (induction ms arbitrary: w) (simp_all add: showWarning_monitor_ok)

lemma step_keeps_cheatAlert:
  assumes "monitor_ok w" and "cheatAlert w = Some r"
  shows "cheatAlert (step e w) = Some r"
  using assms
  by (cases e)
    (simp_all add: step_loaded on_visibilitychange_eq on_blur_eq on_interval_eq
       showWarning_reuse del: step.simps(1-4))

lemma run_keeps_cheatAlert:
  "monitor_ok w \<Longrightarrow> cheatAlert w = Some r \<Longrightarrow> cheatAlert (run evs w) = Some r"
  by (induction evs arbitrary: w) (simp_all add: step_keeps_cheatAlert step_monitor_ok)

subsection \<open>C4: the notice shows the latest message\<close>

text \<open>
  C4. From the load on, after any events and any further calls of showWarning, a call
  of showWarning leaves a notice whose text is the message of that call. At any moment
  the notice shows the message of the most recent call of showWarning, and there is
  no notice exactly when showWarning has not been called.
\<close>

theorem notice_text_is_latest_message:
  "notice_text (showWarning m (fold showWarning ms (run evs (load_script fresh_page)))) = Some m \<and>
   notice_text (run evs (load_script fresh_page)) =
     (if warnings (run evs (load_script fresh_page)) = [] then None
      else Some (last (warnings (run evs (load_script fresh_page)))))"
proof -
  let ?W = "run evs (load_script fresh_page)"
  have ok: "monitor_ok ?W" by (rule reachable_monitor_ok)
  then have "monitor_ok (showWarning m (fold showWarning ms ?W))"
    by (simp add: fold_showWarning_monitor_ok showWarning_monitor_ok)
  from monitor_ok_notice(1) [OF this] monitor_ok_notice(1) [OF ok]
  show ?thesis by simp
qed

theorem notice_text_witness:
  "notice_text (showWarning tab_switch_message
     (fold showWarning [focus_lost_message, devtools_message]
        (run [Blur] (load_script fresh_page)))) = Some tab_switch_message \<and>
   notice_text (run [VisibilityChange True, VisibilityChange False, VisibilityChange True]
     (load_script fresh_page)) = Some tab_switch_message \<and>
   getEchoVivaCheatCount
     (run [VisibilityChange True, VisibilityChange False, VisibilityChange True]
        (load_script fresh_page)) = Some 2"
  using notice_text_is_latest_message
    [of tab_switch_message "[focus_lost_message, devtools_message]" "[Blur]"]
    notice_text_is_latest_message
    [of m ms "[VisibilityChange True, VisibilityChange False, VisibilityChange True]" for m ms]
  by (simp add: getEchoVivaCheatCount_def)

subsection \<open>C7: one notice element, made once and kept\<close>

text \<open>
  C7. From the load on the script has made at most one element, and the children it
  has added to the body are that element and nothing else. showWarning makes and
  inserts an element exactly when the reference is null, and otherwise keeps the
  reference, the number of elements and the body as they are. Once the reference is
  set, no later sequence of events changes it.
\<close>

theorem one_notice_element_made_once_and_kept:
  "length (elements (run evs (load_script fresh_page))) \<le> 1 \<and>
   body (run evs (load_script fresh_page)) =
     (case cheatAlert (run evs (load_script fresh_page)) of None \<Rightarrow> [] | Some r \<Rightarrow> [r]) \<and>
   length (elements (showWarning m w)) =
     (if cheatAlert w = None then length (elements w) + 1 else length (elements w)) \<and>
   body (showWarning m w) =
     (if cheatAlert w = None then body w @ [length (elements w)] else body w) \<and>
   cheatAlert (showWarning m w) =
     (if cheatAlert w = None then Some (length (elements w)) else cheatAlert w) \<and>
   (cheatAlert (run evs (load_script fresh_page)) = Some r \<longrightarrow>
      cheatAlert (run (evs @ later) (load_script fresh_page)) = Some r)"
proof -
  let ?W = "run evs (load_script fresh_page)"
  have ok: "monitor_ok ?W" by (rule reachable_monitor_ok)
  have "cheatAlert ?W = Some r \<longrightarrow> cheatAlert (run later ?W) = Some r"
    using run_keeps_cheatAlert [OF ok] by simp
  moreover have "length (elements (showWarning m w)) =
      (if cheatAlert w = None then length (elements w) + 1 else length (elements w))"
    by (simp add: showWarning_dom split: option.split)
  moreover have "body (showWarning m w) =
     (if cheatAlert w = None then body w @ [length (elements w)] else body w)"
    by (simp add: showWarning_dom split: option.split)
  moreover have "cheatAlert (showWarning m w) =
     (if cheatAlert w = None then Some (length (elements w)) else cheatAlert w)"
    by (simp add: showWarning_dom split: option.split)
  ultimately show ?thesis
    using monitor_ok_notice(2,3) [OF ok] by simp
qed

theorem one_notice_element_witness:
  "cheatAlert (run [Blur] (load_script fresh_page)) = Some 0 \<and>
   cheatAlert (run ([Blur] @ [VisibilityChange True, Elapse 5000, Tick 500 0 0 0, Load])
     (load_script fresh_page)) = Some 0 \<and>
   length (elements (run [Blur] (load_script fresh_page))) = 1 \<and>
   body (run [Blur] (load_script fresh_page)) = [0] \<and>
   length (elements (showWarning devtools_message (run [Blur] (load_script fresh_page)))) = 1"
  using one_notice_element_made_once_and_kept
    [of "[Blur]" devtools_message "run [Blur] (load_script fresh_page)" 0
        "[VisibilityChange True, Elapse 5000, Tick 500 0 0 0, Load]"]
  by (simp add: showWarning_dom handlers_dom)

lemma new_cheatAlert_style:
  "get_style (new_cheatAlert m) ''position'' = Some ''fixed''"
  "get_style (new_cheatAlert m) ''top'' = Some ''10px''"
  "get_style (new_cheatAlert m) ''right'' = Some ''10px''"
  "get_style (new_cheatAlert m) ''background'' =
     Some ''linear-gradient(135deg, rgba(255, 0, 0, 0.8), rgba(255, 100, 100, 0.8))''"
  "get_style (new_cheatAlert m) ''color'' = Some ''white''"
  "get_style (new_cheatAlert m) ''padding'' = Some ''12px 16px''"
  "get_style (new_cheatAlert m) ''fontSize'' = Some ''14px''"
  "get_style (new_cheatAlert m) ''borderRadius'' = Some ''8px''"
  "get_style (new_cheatAlert m) ''zIndex'' = Some ''999999''"
  "get_style (new_cheatAlert m) ''boxShadow'' = Some ''0 0 12px rgba(0,0,0,0.5)''"
  "get_style (new_cheatAlert m) ''fontFamily'' = Some ''Poppins, sans-serif''"
  "get_style (new_cheatAlert m) ''transition'' = Some ''opacity 0.4s ease''"
  by (simp_all add: new_cheatAlert_def)

subsection \<open>C10: what a call on an existing notice leaves alone\<close>

text \<open>
  C10. When the reference is set, to an element of the store, a call of showWarning
  sets the text of that element to the message and its opacity to 1. Every other style
  property of the element has the value it had before, position, top, right,
  background, color, padding, fontSize, borderRadius, zIndex, boxShadow, fontFamily and
  transition among them; its tag, the children of the body, the reference, the number
  of elements and every other element are unchanged.
\<close>

theorem showWarning_on_existing_notice_changes_only_text_and_opacity:
  assumes "cheatAlert w = Some r" and "r < length (elements w)"
  shows "textContent (elements (showWarning m w) ! r) = m \<and>
    get_style (elements (showWarning m w) ! r) ''opacity'' = Some ''1'' \<and>
    (\<forall>p. p \<noteq> ''opacity'' \<longrightarrow>
       get_style (elements (showWarning m w) ! r) p = get_style (elements w ! r) p) \<and>
    localName (elements (showWarning m w) ! r) = localName (elements w ! r) \<and>
    body (showWarning m w) = body w \<and>
    cheatAlert (showWarning m w) = Some r \<and>
    length (elements (showWarning m w)) = length (elements w) \<and>
    (\<forall>i. i \<noteq> r \<longrightarrow> elements (showWarning m w) ! i = elements w ! i)"
  using assms by (simp add: showWarning_reuse)

theorem showWarning_on_existing_notice_witness:
  "cheatAlert (run [Blur] (load_script fresh_page)) = Some 0 \<and>
   0 < length (elements (run [Blur] (load_script fresh_page))) \<and>
   textContent (elements (showWarning devtools_message (run [Blur] (load_script fresh_page))) ! 0) = devtools_message \<and>
   get_style (elements (showWarning devtools_message (run [Blur] (load_script fresh_page))) ! 0) ''opacity'' = Some ''1'' \<and>
   get_style (elements (showWarning devtools_message (run [Blur] (load_script fresh_page))) ! 0) ''position'' =
     Some ''fixed'' \<and>
   get_style (elements (showWarning devtools_message (run [Blur] (load_script fresh_page))) ! 0) ''top'' =
     Some ''10px'' \<and>
   get_style (elements (showWarning devtools_message (run [Blur] (load_script fresh_page))) ! 0) ''right'' =
     Some ''10px'' \<and>
   get_style (elements (showWarning devtools_message (run [Blur] (load_script fresh_page))) ! 0) ''background'' =
     Some ''linear-gradient(135deg, rgba(255, 0, 0, 0.8), rgba(255, 100, 100, 0.8))'' \<and>
   get_style (elements (showWarning devtools_message (run [Blur] (load_script fresh_page))) ! 0) ''color'' =
     Some ''white'' \<and>
   get_style (elements (showWarning devtools_message (run [Blur] (load_script fresh_page))) ! 0) ''padding'' =
     Some ''12px 16px'' \<and>
   get_style (elements (showWarning devtools_message (run [Blur] (load_script fresh_page))) ! 0) ''fontSize'' =
     Some ''14px'' \<and>
   get_style (elements (showWarning devtools_message (run [Blur] (load_script fresh_page))) ! 0) ''borderRadius'' =
     Some ''8px'' \<and>
   get_style (elements (showWarning devtools_message (run [Blur] (load_script fresh_page))) ! 0) ''zIndex'' =
     Some ''999999'' \<and>
   get_style (elements (showWarning devtools_message (run [Blur] (load_script fresh_page))) ! 0) ''boxShadow'' =
     Some ''0 0 12px rgba(0,0,0,0.5)'' \<and>
   get_style (elements (showWarning devtools_message (run [Blur] (load_script fresh_page))) ! 0) ''fontFamily'' =
     Some ''Poppins, sans-serif'' \<and>
   get_style (elements (showWarning devtools_message (run [Blur] (load_script fresh_page))) ! 0) ''transition'' =
     Some ''opacity 0.4s ease'' \<and>
   body (showWarning devtools_message (run [Blur] (load_script fresh_page))) = [0]"
proof -
  let ?w = "run [Blur] (load_script fresh_page)"
  have ref: "cheatAlert ?w = Some 0" and len: "0 < length (elements ?w)"
    by (simp_all add: showWarning_dom handlers_dom)
  have old: "elements ?w ! 0 = new_cheatAlert focus_lost_message" "body ?w = [0]"
    by (simp_all add: showWarning_dom handlers_dom)
  from showWarning_on_existing_notice_changes_only_text_and_opacity
    [OF ref len, of devtools_message] ref len old
  show ?thesis by (simp add: new_cheatAlert_style)
qed

subsection \<open>The opacity of the notice\<close>

lemma monitor_ok_opacity:
  assumes "monitor_ok w"
  shows "notice_opacity (showWarning m w) = (if cheatAlert w = None then None else Some ''1'')"
    and "notice_opacity (fade w) = (if cheatAlert w = None then None else Some ''0'')"
    and "notice_opacity (w\<lparr>now := t, timeouts := ts\<rparr>) = notice_opacity w"
  using assms
  by (auto simp: monitor_ok_def notice_opacity_def notice_def showWarning_dom fade_def
      split: option.splits)

lemma notice_opacity_update [simp]:
  "notice_opacity (w\<lparr>console := l\<rparr>) = notice_opacity w"
  "notice_opacity (w\<lparr>devtoolsOpen := b\<rparr>) = notice_opacity w"
  by (simp_all add: notice_opacity_def notice_def split: option.split)



subsection \<open>Pending timeouts lie in the future\<close>





subsection \<open>A stretch of events in which no warning is fired\<close>





subsection \<open>C5: when the notice fades\<close>




subsection \<open>Ticks among other events\<close>

lemma messages_distinct [simp]:
  "tab_switch_message \<noteq> devtools_message"
  "focus_lost_message \<noteq> devtools_message"
  by (simp_all add: tab_switch_message_def focus_lost_message_def devtools_message_def)

lemma notice_text_update [simp]:
  "notice_text (w\<lparr>devtoolsOpen := b\<rparr>) = notice_text w"
  by (simp add: notice_text_def notice_def split: option.split)

lemma devtoolsOpen_same:
  "devtoolsOpen w = b \<Longrightarrow> w\<lparr>devtoolsOpen := b\<rparr> = w"
  by auto

lemma step_other_event:
  assumes "monitor_ok w" and "\<not> is_Tick e"
  shows "devtoolsOpen (step e w) = devtoolsOpen w"
    and "count_list (warnings (step e w)) devtools_message =
         count_list (warnings w) devtools_message"
  using assms by (cases e; simp add: step_loaded del: step.simps(1-4))+

lemma step_Tick:
  assumes "monitor_ok w"
  shows "step (Tick ow iw oh ih) w =
    (if 160 < ow - iw \<or> 160 < oh - ih then
       (if devtoolsOpen w then w else (showWarning devtools_message w)\<lparr>devtoolsOpen := True\<rparr>)
     else w\<lparr>devtoolsOpen := False\<rparr>)"
  using assms by (simp add: step_loaded on_interval_eq del: step.simps)

lemma step_event_cases:
  assumes "monitor_ok w"
  shows "devtoolsOpen (step e w) = (if is_Tick e then above e else devtoolsOpen w)"
    and "count_list (warnings (step e w)) devtools_message =
         count_list (warnings w) devtools_message +
           (if above e \<and> \<not> devtoolsOpen w then 1 else 0)"
  using assms
  by (cases e; simp add: step_loaded threshold_def del: step.simps(1-4))+

lemma above_is_Tick: "above e \<Longrightarrow> is_Tick e"
  by (cases e) simp_all

lemma calm_phase:
  assumes "monitor_ok w" and "\<forall>e \<in> set p. \<not> above e"
  shows "count_list (warnings (run p w)) devtools_message =
      count_list (warnings w) devtools_message \<and>
    devtoolsOpen (run p w) = (devtoolsOpen w \<and> \<not> (\<exists>e \<in> set p. is_Tick e))"
  using assms
proof (induction p arbitrary: w)
  case Nil
  show ?case by simp
next
  case (Cons e p)
  note st = step_event_cases [OF Cons.prems(1), of e]
  from Cons.prems have "monitor_ok (step e w)" and "\<forall>e \<in> set p. \<not> above e"
    by (simp_all add: step_monitor_ok)
  from Cons.IH [OF this] st Cons.prems(2) show ?case by auto
qed

lemma breached_phase:
  assumes "monitor_ok w" and "\<forall>e \<in> set p. is_Tick e \<longrightarrow> above e"
  shows "count_list (warnings (run p w)) devtools_message =
      count_list (warnings w) devtools_message +
        (if (\<exists>e \<in> set p. is_Tick e) \<and> \<not> devtoolsOpen w then 1 else 0) \<and>
    devtoolsOpen (run p w) = (devtoolsOpen w \<or> (\<exists>e \<in> set p. is_Tick e))"
  using assms
proof (induction p arbitrary: w)
  case Nil
  show ?case by simp
next
  case (Cons e p)
  note st = step_event_cases [OF Cons.prems(1), of e]
  from Cons.prems have "monitor_ok (step e w)" and "\<forall>e \<in> set p. is_Tick e \<longrightarrow> above e"
    by (simp_all add: step_monitor_ok)
  from Cons.IH [OF this] st Cons.prems(2) above_is_Tick [of e] show ?case by auto
qed

lemma ticks_without_effect:
  assumes "monitor_ok w"
    and "\<forall>e \<in> set p. is_Tick e \<longrightarrow> above e = devtoolsOpen w"
  shows "run p w = run (filter (\<lambda>e. \<not> is_Tick e) p) w"
  using assms
proof (induction p arbitrary: w)
  case Nil
  show ?case by simp
next
  case (Cons e p)
  show ?case
  proof (cases "is_Tick e")
    case True
    then obtain ow iw oh ih where e: "e = Tick ow iw oh ih" by (cases e) simp_all
    with True Cons.prems(2) have "(160 < ow - iw \<or> 160 < oh - ih) = devtoolsOpen w"
      by (simp add: threshold_def)
    then have "step e w = w"
      unfolding e step_Tick [OF Cons.prems(1)] by (auto simp: devtoolsOpen_same)
    with Cons.IH [of w] Cons.prems True show ?thesis by simp
  next
    case False
    from Cons.prems(1) have ok: "monitor_ok (step e w)" by (rule step_monitor_ok)
    from step_other_event(1) [OF Cons.prems(1) False] Cons.prems(2)
    have "\<forall>e' \<in> set p. is_Tick e' \<longrightarrow> above e' = devtoolsOpen (step e w)" by simp
    from Cons.IH [OF ok this] False show ?thesis by simp
  qed
qed

subsection \<open>C3: one devtools warning per breach\<close>

text \<open>
  C3. Let \<open>W\<close> be the page after the load and any events. A tick with a difference
  above 160 on some axis, on \<open>W\<close> with \<open>devtoolsOpen\<close> clear, is one call of
  showWarning with the devtools message and sets the flag: the notice shows that
  message, its opacity is not 0, and its fade is due 4000 ms later. The same tick on
  \<open>W\<close> with the flag set changes nothing at all. A tick with both differences at most
  160 clears the flag and changes nothing else. No other event changes the flag.
  So, whatever other events (time passing, blurs, visibility changes, loads) come
  between the ticks: while the flag is clear, ticks with no difference above 160 can be
  left out of a run without changing the page it ends in, and while the flag is set, so
  can ticks with a difference above 160. Start with the flag clear and let four
  stretches of events follow, the ticks of the first with no difference above 160,
  those of the second all with one, those of the third with none, those of the fourth
  all with one, and at least one tick in each of the last three: the first stretch
  fires no devtools warning and leaves the flag clear, the second fires exactly one
  and leaves it set, the third fires none and leaves it clear, the fourth fires
  exactly one more and leaves it set.
\<close>

theorem devtools_warning_fires_once_per_breach:
  fixes before p sa sb sc sd :: "event list" and e :: event and ow iw oh ih :: int
  defines "W \<equiv> run before (load_script fresh_page)"
  shows
    "((160 < ow - iw \<or> 160 < oh - ih) \<and> \<not> devtoolsOpen W \<longrightarrow>
        step (Tick ow iw oh ih) W = (showWarning devtools_message W)\<lparr>devtoolsOpen := True\<rparr> \<and>
        warnings (step (Tick ow iw oh ih) W) = warnings W @ [devtools_message] \<and>
        notice_text (step (Tick ow iw oh ih) W) = Some devtools_message \<and>
        notice_opacity (step (Tick ow iw oh ih) W) \<noteq> Some ''0'' \<and>
        timeouts (step (Tick ow iw oh ih) W) = timeouts W @ [now W + 4000] \<and>
        devtoolsOpen (step (Tick ow iw oh ih) W)) \<and>
     ((160 < ow - iw \<or> 160 < oh - ih) \<and> devtoolsOpen W \<longrightarrow>
        step (Tick ow iw oh ih) W = W) \<and>
     (ow - iw \<le> 160 \<and> oh - ih \<le> 160 \<longrightarrow>
        step (Tick ow iw oh ih) W = W\<lparr>devtoolsOpen := False\<rparr>) \<and>
     (\<not> is_Tick e \<longrightarrow> devtoolsOpen (step e W) = devtoolsOpen W) \<and>
     (\<not> devtoolsOpen W \<and> (\<forall>e \<in> set p. \<not> above e) \<longrightarrow>
        run p W = run (filter (\<lambda>e. \<not> is_Tick e) p) W) \<and>
     (devtoolsOpen W \<and> (\<forall>e \<in> set p. is_Tick e \<longrightarrow> above e) \<longrightarrow>
        run p W = run (filter (\<lambda>e. \<not> is_Tick e) p) W) \<and>
     (\<not> devtoolsOpen W \<and>
      (\<forall>e \<in> set (sa @ sc). \<not> above e) \<and>
      (\<forall>e \<in> set (sb @ sd). is_Tick e \<longrightarrow> above e) \<and>
      (\<exists>e \<in> set sb. is_Tick e) \<and> (\<exists>e \<in> set sc. is_Tick e) \<and> (\<exists>e \<in> set sd. is_Tick e) \<longrightarrow>
        count_list (warnings (run sa W)) devtools_message =
          count_list (warnings W) devtools_message \<and>
        \<not> devtoolsOpen (run sa W) \<and>
        count_list (warnings (run (sa @ sb) W)) devtools_message =
          count_list (warnings W) devtools_message + 1 \<and>
        devtoolsOpen (run (sa @ sb) W) \<and>
        count_list (warnings (run (sa @ sb @ sc) W)) devtools_message =
          count_list (warnings W) devtools_message + 1 \<and>
        \<not> devtoolsOpen (run (sa @ sb @ sc) W) \<and>
        count_list (warnings (run (sa @ sb @ sc @ sd) W)) devtools_message =
          count_list (warnings W) devtools_message + 2 \<and>
        devtoolsOpen (run (sa @ sb @ sc @ sd) W))"
proof -
  let ?T = "Tick ow iw oh ih"
  have ok: "monitor_ok W" unfolding W_def by (rule reachable_monitor_ok)
  note tick = step_Tick [OF ok, of ow iw oh ih]
  have fires: "(160 < ow - iw \<or> 160 < oh - ih) \<and> \<not> devtoolsOpen W \<longrightarrow>
      step ?T W = (showWarning devtools_message W)\<lparr>devtoolsOpen := True\<rparr> \<and>
      warnings (step ?T W) = warnings W @ [devtools_message] \<and>
      notice_text (step ?T W) = Some devtools_message \<and>
      notice_opacity (step ?T W) \<noteq> Some ''0'' \<and>
      timeouts (step ?T W) = timeouts W @ [now W + 4000] \<and>
      devtoolsOpen (step ?T W)"
  proof
    assume "(160 < ow - iw \<or> 160 < oh - ih) \<and> \<not> devtoolsOpen W"
    with tick
    have eq: "step ?T W = (showWarning devtools_message W)\<lparr>devtoolsOpen := True\<rparr>"
      by simp
    have "notice_text (showWarning devtools_message W) = Some devtools_message"
      using monitor_ok_notice(1) [OF showWarning_monitor_ok [OF ok], of devtools_message]
      by simp
    moreover have "notice_opacity (showWarning devtools_message W) \<noteq> Some ''0''"
      by (simp add: monitor_ok_opacity(1) [OF ok])
    ultimately show "step ?T W = (showWarning devtools_message W)\<lparr>devtoolsOpen := True\<rparr> \<and>
      warnings (step ?T W) = warnings W @ [devtools_message] \<and>
      notice_text (step ?T W) = Some devtools_message \<and>
      notice_opacity (step ?T W) \<noteq> Some ''0'' \<and>
      timeouts (step ?T W) = timeouts W @ [now W + 4000] \<and>
      devtoolsOpen (step ?T W)"
      unfolding eq by simp
  qed
  have repeat: "(160 < ow - iw \<or> 160 < oh - ih) \<and> devtoolsOpen W \<longrightarrow> step ?T W = W"
    using tick by simp
  have reset: "ow - iw \<le> 160 \<and> oh - ih \<le> 160 \<longrightarrow> step ?T W = W\<lparr>devtoolsOpen := False\<rparr>"
    using tick by (simp add: not_less)
  have other: "\<not> is_Tick e \<longrightarrow> devtoolsOpen (step e W) = devtoolsOpen W"
    using step_other_event(1) [OF ok] by simp
  have calm_out: "\<not> devtoolsOpen W \<and> (\<forall>e \<in> set p. \<not> above e) \<longrightarrow>
      run p W = run (filter (\<lambda>e. \<not> is_Tick e) p) W"
    using ticks_without_effect [OF ok, of p] by simp
  have breached_out: "devtoolsOpen W \<and> (\<forall>e \<in> set p. is_Tick e \<longrightarrow> above e) \<longrightarrow>
      run p W = run (filter (\<lambda>e. \<not> is_Tick e) p) W"
    using ticks_without_effect [OF ok, of p] by simp
  have phases: "\<not> devtoolsOpen W \<and>
      (\<forall>e \<in> set (sa @ sc). \<not> above e) \<and>
      (\<forall>e \<in> set (sb @ sd). is_Tick e \<longrightarrow> above e) \<and>
      (\<exists>e \<in> set sb. is_Tick e) \<and> (\<exists>e \<in> set sc. is_Tick e) \<and> (\<exists>e \<in> set sd. is_Tick e) \<longrightarrow>
        count_list (warnings (run sa W)) devtools_message =
          count_list (warnings W) devtools_message \<and>
        \<not> devtoolsOpen (run sa W) \<and>
        count_list (warnings (run (sa @ sb) W)) devtools_message =
          count_list (warnings W) devtools_message + 1 \<and>
        devtoolsOpen (run (sa @ sb) W) \<and>
        count_list (warnings (run (sa @ sb @ sc) W)) devtools_message =
          count_list (warnings W) devtools_message + 1 \<and>
        \<not> devtoolsOpen (run (sa @ sb @ sc) W) \<and>
        count_list (warnings (run (sa @ sb @ sc @ sd) W)) devtools_message =
          count_list (warnings W) devtools_message + 2 \<and>
        devtoolsOpen (run (sa @ sb @ sc @ sd) W)"
  proof (intro impI, elim conjE)
    assume clear: "\<not> devtoolsOpen W"
      and calm: "\<forall>e \<in> set (sa @ sc). \<not> above e"
      and breached: "\<forall>e \<in> set (sb @ sd). is_Tick e \<longrightarrow> above e"
      and t2: "\<exists>e \<in> set sb. is_Tick e" and t3: "\<exists>e \<in> set sc. is_Tick e"
      and t4: "\<exists>e \<in> set sd. is_Tick e"
    let ?W1 = "run sa W"
    let ?W2 = "run sb ?W1"
    let ?W3 = "run sc ?W2"
    let ?W4 = "run sd ?W3"
    have ok1: "monitor_ok ?W1" using ok by (rule run_monitor_ok)
    then have ok2: "monitor_ok ?W2" by (rule run_monitor_ok)
    then have ok3: "monitor_ok ?W3" by (rule run_monitor_ok)
    have c1: "\<forall>e \<in> set sa. \<not> above e" and c3: "\<forall>e \<in> set sc. \<not> above e"
      using calm by simp_all
    have b2: "\<forall>e \<in> set sb. is_Tick e \<longrightarrow> above e"
      and b4: "\<forall>e \<in> set sd. is_Tick e \<longrightarrow> above e"
      using breached by simp_all
    have s1: "count_list (warnings ?W1) devtools_message =
        count_list (warnings W) devtools_message" "\<not> devtoolsOpen ?W1"
      using calm_phase [OF ok c1] clear by simp_all
    have s2: "count_list (warnings ?W2) devtools_message =
        count_list (warnings W) devtools_message + 1" "devtoolsOpen ?W2"
      using breached_phase [OF ok1 b2] s1 t2 by simp_all
    have s3: "count_list (warnings ?W3) devtools_message =
        count_list (warnings W) devtools_message + 1" "\<not> devtoolsOpen ?W3"
      using calm_phase [OF ok2 c3] s2 t3 by simp_all
    have s4: "count_list (warnings ?W4) devtools_message =
        count_list (warnings W) devtools_message + 2" "devtoolsOpen ?W4"
      using breached_phase [OF ok3 b4] s3 t4 by simp_all
    from s1 s2 s3 s4
    show "count_list (warnings (run sa W)) devtools_message =
          count_list (warnings W) devtools_message \<and>
        \<not> devtoolsOpen (run sa W) \<and>
        count_list (warnings (run (sa @ sb) W)) devtools_message =
          count_list (warnings W) devtools_message + 1 \<and>
        devtoolsOpen (run (sa @ sb) W) \<and>
        count_list (warnings (run (sa @ sb @ sc) W)) devtools_message =
          count_list (warnings W) devtools_message + 1 \<and>
        \<not> devtoolsOpen (run (sa @ sb @ sc) W) \<and>
        count_list (warnings (run (sa @ sb @ sc @ sd) W)) devtools_message =
          count_list (warnings W) devtools_message + 2 \<and>
        devtoolsOpen (run (sa @ sb @ sc @ sd) W)"
      by simp
  qed
  from fires repeat reset other calm_out breached_out phases show ?thesis
    by (intro conjI)
qed

theorem devtools_warning_witness:
  "\<not> devtoolsOpen (load_script fresh_page) \<and>
   warnings (step (Tick 1200 1000 800 700) (load_script fresh_page)) = [devtools_message] \<and>
   notice_text (step (Tick 1200 1000 800 700) (load_script fresh_page)) =
     Some devtools_message \<and>
   timeouts (step (Tick 1200 1000 800 700) (load_script fresh_page)) = [4000] \<and>
   devtoolsOpen (step (Tick 1200 1000 800 700) (load_script fresh_page)) \<and>
   devtoolsOpen (run [Elapse 1000, Tick 1200 1000 800 700] (load_script fresh_page)) \<and>
   step (Tick 1200 1000 800 700)
       (run [Elapse 1000, Tick 1200 1000 800 700] (load_script fresh_page)) =
     run [Elapse 1000, Tick 1200 1000 800 700] (load_script fresh_page) \<and>
   step (Tick 1000 1000 800 700)
       (run [Elapse 1000, Tick 1200 1000 800 700] (load_script fresh_page)) =
     (run [Elapse 1000, Tick 1200 1000 800 700] (load_script fresh_page))
       \<lparr>devtoolsOpen := False\<rparr> \<and>
   devtoolsOpen
     (step Blur (run [Elapse 1000, Tick 1200 1000 800 700] (load_script fresh_page))) \<and>
   run
        [Elapse 1000, Tick 1000 1000 800 700, Elapse 1000,
         Tick 1000 1000 800 700]
        (load_script fresh_page) =
     run [Elapse 1000, Elapse 1000] (load_script fresh_page) \<and>
   run
        [Elapse 1000, Tick 1200 1000 800 700, Elapse 1000,
         Tick 1200 1000 800 700, Elapse 1000, Tick 1200 1000 800 700,
         Elapse 1000, Tick 1200 1000 800 700, Elapse 1000,
         Tick 1200 1000 800 700]
        (run [Elapse 1000, Tick 1200 1000 800 700] (load_script fresh_page)) =
     run
        [Elapse 1000, Elapse 1000, Elapse 1000, Elapse 1000, Elapse 1000]
        (run [Elapse 1000, Tick 1200 1000 800 700] (load_script fresh_page)) \<and>
   warnings
     (run
        [Elapse 1000, Tick 1000 1000 800 700, Elapse 1000,
         Tick 1200 1000 800 700, Elapse 1000, Tick 1200 1000 800 700,
         Elapse 1000, Tick 1200 1000 800 700, Elapse 1000,
         Tick 1200 1000 800 700, Elapse 1000, Tick 1200 1000 800 700,
         Elapse 1000, Tick 1200 1000 800 700]
        (load_script fresh_page)) = [devtools_message] \<and>
   now
     (run
        [Elapse 1000, Tick 1000 1000 800 700, Elapse 1000,
         Tick 1200 1000 800 700, Elapse 1000, Tick 1200 1000 800 700,
         Elapse 1000, Tick 1200 1000 800 700, Elapse 1000,
         Tick 1200 1000 800 700, Elapse 1000, Tick 1200 1000 800 700,
         Elapse 1000, Tick 1200 1000 800 700]
        (load_script fresh_page)) = 7000 \<and>
   timeouts
     (run
        [Elapse 1000, Tick 1000 1000 800 700, Elapse 1000,
         Tick 1200 1000 800 700, Elapse 1000, Tick 1200 1000 800 700,
         Elapse 1000, Tick 1200 1000 800 700, Elapse 1000,
         Tick 1200 1000 800 700, Elapse 1000, Tick 1200 1000 800 700,
         Elapse 1000, Tick 1200 1000 800 700]
        (load_script fresh_page)) = [] \<and>
   devtoolsOpen
     (run
        [Elapse 1000, Tick 1000 1000 800 700, Elapse 1000,
         Tick 1200 1000 800 700, Elapse 1000, Tick 1200 1000 800 700,
         Elapse 1000, Tick 1200 1000 800 700, Elapse 1000,
         Tick 1200 1000 800 700, Elapse 1000, Tick 1200 1000 800 700,
         Elapse 1000, Tick 1200 1000 800 700]
        (load_script fresh_page)) \<and>
   warnings
     (run
        [Elapse 1000, Tick 1000 1000 800 700, Elapse 1000,
         Tick 1200 1000 800 700, Elapse 1000, Tick 1200 1000 800 700,
         Elapse 1000, Tick 1200 1000 800 700, Elapse 1000,
         Tick 1200 1000 800 700, Elapse 1000, Tick 1200 1000 800 700,
         Elapse 1000, Tick 1200 1000 800 700, Elapse 1000,
         Tick 1000 1000 800 700, Elapse 1000, Tick 1000 1000 900 700]
        (load_script fresh_page)) = [devtools_message, devtools_message] \<and>
   devtoolsOpen
     (run
        [Elapse 1000, Tick 1000 1000 800 700, Elapse 1000,
         Tick 1200 1000 800 700, Elapse 1000, Tick 1200 1000 800 700,
         Elapse 1000, Tick 1200 1000 800 700, Elapse 1000,
         Tick 1200 1000 800 700, Elapse 1000, Tick 1200 1000 800 700,
         Elapse 1000, Tick 1200 1000 800 700, Elapse 1000,
         Tick 1000 1000 800 700, Elapse 1000, Tick 1000 1000 900 700]
        (load_script fresh_page))"
  using devtools_warning_fires_once_per_breach
    [where before = "[]" and ow = 1200 and iw = 1000 and oh = 800 and ih = 700
       and e = Blur and p = "[Elapse 1000, Tick 1000 1000 800 700, Elapse 1000, Tick 1000 1000 800 700]"
       and sa = "[Elapse 1000, Tick 1000 1000 800 700]"
       and sb = "[Elapse 1000, Tick 1200 1000 800 700, Elapse 1000,
              Tick 1200 1000 800 700, Elapse 1000, Tick 1200 1000 800 700,
              Elapse 1000, Tick 1200 1000 800 700, Elapse 1000,
              Tick 1200 1000 800 700, Elapse 1000, Tick 1200 1000 800 700]"
       and sc = "[Elapse 1000, Tick 1000 1000 800 700]"
       and sd = "[Elapse 1000, Tick 1000 1000 900 700]"]
    devtools_warning_fires_once_per_breach
    [where before = "[Elapse 1000, Tick 1200 1000 800 700]" and ow = 1200 and iw = 1000
       and oh = 800 and ih = 700 and e = Blur
       and p = "[Elapse 1000, Tick 1200 1000 800 700, Elapse 1000,
              Tick 1200 1000 800 700, Elapse 1000, Tick 1200 1000 800 700,
              Elapse 1000, Tick 1200 1000 800 700, Elapse 1000,
              Tick 1200 1000 800 700]"]
    devtools_warning_fires_once_per_breach
    [where before = "[Elapse 1000, Tick 1200 1000 800 700]" and ow = 1000 and iw = 1000
       and oh = 800 and ih = 700]
  by (simp add: threshold_def on_interval_eq)

subsection \<open>The script without warningShown computes the same page\<close>

lemma fade_warningShown:
  "fade (w\<lparr>warningShown := b\<rparr>) = (fade w)\<lparr>warningShown := b\<rparr>"
  by (simp add: fade_def split: option.split)

lemma elapse_warningShown:
  "elapse d (w\<lparr>warningShown := b\<rparr>) = (elapse d w)\<lparr>warningShown := b\<rparr>"
  by (simp add: elapse_unfold fade_def split: option.split)

lemma on_interval_warningShown:
  "on_interval ow iw oh ih (w\<lparr>warningShown := b\<rparr>) =
     (on_interval ow iw oh ih w)\<lparr>warningShown := b\<rparr>"
  by (simp add: on_interval_eq)

lemma on_visibilitychange_noflag_sim:
  "on_visibilitychange_noflag h (w\<lparr>warningShown := b\<rparr>) =
     (on_visibilitychange h w)\<lparr>warningShown := b\<rparr>"
  by (simp add: on_visibilitychange_noflag_def on_visibilitychange_eq)

lemma on_blur_noflag_sim:
  "on_blur_noflag (w\<lparr>warningShown := b\<rparr>) = (on_blur w)\<lparr>warningShown := b\<rparr>"
  by (simp add: on_blur_noflag_def on_blur_eq)

lemma load_script_noflag_sim:
  "load_script_noflag (w\<lparr>warningShown := b\<rparr>) = (load_script w)\<lparr>warningShown := b\<rparr>"
  by (simp add: load_script_noflag_def load_script_def Let_def)

lemma notice_warningShown: "notice (w\<lparr>warningShown := b\<rparr>) = notice w"
  by (simp add: notice_def split: option.split)

lemma funpow_sim:
  fixes f g :: "page \<Rightarrow> page"
  assumes "\<And>w b. g (w\<lparr>warningShown := b\<rparr>) = (f w)\<lparr>warningShown := b\<rparr>"
  shows "(g ^^ n) (w\<lparr>warningShown := b\<rparr>) = ((f ^^ n) w)\<lparr>warningShown := b\<rparr>"
  by (induction n) (simp_all add: assms)

lemma step_noflag_sim:
  "step_noflag e (w\<lparr>warningShown := b\<rparr>) = (step e w)\<lparr>warningShown := b\<rparr>"
proof (cases e)
  case Load
  then show ?thesis by (simp add: load_script_noflag_sim)
next
  case (VisibilityChange h)
  then show ?thesis
    by (simp add: funpow_sim [of "on_visibilitychange_noflag h" "on_visibilitychange h"]
        on_visibilitychange_noflag_sim)
next
  case Blur
  then show ?thesis
    by (simp add: funpow_sim [of on_blur_noflag on_blur] on_blur_noflag_sim)
next
  case (Tick ow iw oh ih)
  then show ?thesis
    by (simp add: funpow_sim [of "on_interval ow iw oh ih" "on_interval ow iw oh ih"]
        on_interval_warningShown)
next
  case (Elapse d)
  then show ?thesis by (simp add: elapse_warningShown)
qed

lemma run_noflag_sim:
  "run_noflag evs (w\<lparr>warningShown := b\<rparr>) = (run evs w)\<lparr>warningShown := b\<rparr>"
  by (induction evs arbitrary: w) (simp_all add: run_noflag_def run_def step_noflag_sim)

subsection \<open>C8: warningShown is never read\<close>

text \<open>
  C8. On any page and for any sequence of events, the script without the variable
  \<open>warningShown\<close> and its assignments leaves the page the script leaves, but for the
  field \<open>warningShown\<close>, which it does not touch: the counter, the value of the
  accessor, the warnings fired, the elements, the body, the notice, the console and the
  timers are the same. The page the script leaves does not depend on the value the
  variable had before, except in that one field.
\<close>

theorem warningShown_is_written_and_never_read:
  "run_noflag evs w = (run evs w)\<lparr>warningShown := warningShown w\<rparr> \<and>
   tabSwitchCount (run_noflag evs w) = tabSwitchCount (run evs w) \<and>
   getEchoVivaCheatCount (run_noflag evs w) = getEchoVivaCheatCount (run evs w) \<and>
   warnings (run_noflag evs w) = warnings (run evs w) \<and>
   elements (run_noflag evs w) = elements (run evs w) \<and>
   body (run_noflag evs w) = body (run evs w) \<and>
   notice (run_noflag evs w) = notice (run evs w) \<and>
   console (run_noflag evs w) = console (run evs w) \<and>
   timeouts (run_noflag evs w) = timeouts (run evs w) \<and>
   devtoolsOpen (run_noflag evs w) = devtoolsOpen (run evs w) \<and>
   (run evs (w\<lparr>warningShown := b\<rparr>))\<lparr>warningShown := c\<rparr> = (run evs w)\<lparr>warningShown := c\<rparr>"
proof -
  have eq: "run_noflag evs w = (run evs w)\<lparr>warningShown := warningShown w\<rparr>"
    using run_noflag_sim [where evs = evs and w = w and b = "warningShown w"] by simp
  have "(run evs (w\<lparr>warningShown := b\<rparr>))\<lparr>warningShown := c\<rparr> =
      run_noflag evs (w\<lparr>warningShown := b, warningShown := c\<rparr>)"
    by (simp only: run_noflag_sim)
  also have "\<dots> = (run evs w)\<lparr>warningShown := c\<rparr>"
    by (simp add: run_noflag_sim)
  finally show ?thesis
    by (simp add: eq getEchoVivaCheatCount_def notice_warningShown)
qed

theorem warningShown_witness:
  "warningShown (run [Blur, Tick 500 0 0 0, Elapse 4000] (load_script fresh_page)) \<and>
   \<not> warningShown (run_noflag [Blur, Tick 500 0 0 0, Elapse 4000] (load_script fresh_page)) \<and>
   tabSwitchCount (run_noflag [Blur, Tick 500 0 0 0, Elapse 4000] (load_script fresh_page)) = 1 \<and>
   warnings (run_noflag [Blur, Tick 500 0 0 0, Elapse 4000] (load_script fresh_page)) =
     [focus_lost_message, devtools_message]"
  using warningShown_is_written_and_never_read
    [of "[Blur, Tick 500 0 0 0, Elapse 4000]" "load_script fresh_page"]
  by simp

end
